theory Spec2Isabelle
  imports Main "HOL-Library.Sublist"
begin

section \<open>SmartTask AI: the command interpreter of app.py\<close>

text \<open>
  A shallow embedding of \<^verbatim>\<open>ai_process\<close> (app.py, lines 251-343), of the helpers it calls
  (\<^verbatim>\<open>format_date_iso\<close>, \<^verbatim>\<open>today_start\<close>) and of the part of \<^verbatim>\<open>api_query\<close> that decides
  whether the task list is written back.

  Python strings are modelled as \<^typ>\<open>string\<close>; the text handled is ASCII, on which the
  string methods below agree with Python's. The two characters of the replies beyond
  ASCII (U+2014 and U+2022) are written as their UTF-8 bytes.
\<close>

subsection \<open>String methods\<close>

definition ascii_uppercase :: string where
  "ascii_uppercase = ''ABCDEFGHIJKLMNOPQRSTUVWXYZ''"

definition ascii_lowercase :: string where
  "ascii_lowercase = ''abcdefghijklmnopqrstuvwxyz''"

definition lower_char :: "char \<Rightarrow> char" where
  "lower_char c =
     (case map_of (zip ascii_uppercase ascii_lowercase) c of Some l \<Rightarrow> l | None \<Rightarrow> c)"

definition upper_char :: "char \<Rightarrow> char" where
  "upper_char c =
     (case map_of (zip ascii_lowercase ascii_uppercase) c of Some u \<Rightarrow> u | None \<Rightarrow> c)"

text \<open>\<^verbatim>\<open>s.lower()\<close> and \<^verbatim>\<open>s.upper()\<close>.\<close>

definition lower :: "string \<Rightarrow> string" where
  "lower s = map lower_char s"

definition upper :: "string \<Rightarrow> string" where
  "upper s = map upper_char s"

text \<open>
  The ASCII characters for which \<^verbatim>\<open>str.isspace\<close> holds: tab, line feed, vertical tab,
  form feed, carriage return, the four separators 0x1C-0x1F, and the space.
\<close>

definition whitespace :: string where
  "whitespace =
     [CHR 0x09, CHR 0x0A, CHR 0x0B, CHR 0x0C, CHR 0x0D,
      CHR 0x1C, CHR 0x1D, CHR 0x1E, CHR 0x1F, CHR 0x20]"

definition isspace :: "char \<Rightarrow> bool" where
  "isspace c = (c \<in> set whitespace)"

text \<open>\<^verbatim>\<open>s.strip()\<close>.\<close>

definition strip :: "string \<Rightarrow> string" where
  "strip s = rev (dropWhile isspace (rev (dropWhile isspace s)))"

text \<open>\<^verbatim>\<open>s.startswith(p)\<close>.\<close>

fun startswith :: "string \<Rightarrow> string \<Rightarrow> bool" where
  "startswith s [] = True"
| "startswith [] (p # ps) = False"
| "startswith (c # cs) (p # ps) = (c = p \<and> startswith cs ps)"

text \<open>\<^verbatim>\<open>w in s\<close>: \<open>w\<close> occurs in \<open>s\<close> as a contiguous substring.\<close>

fun str_in :: "string \<Rightarrow> string \<Rightarrow> bool" where
  "str_in w [] = (w = [])"
| "str_in w (c # cs) = (startswith (c # cs) w \<or> str_in w cs)"

text \<open>
  \<^verbatim>\<open>s.replace(old, new)\<close>: every occurrence of \<open>old\<close>, scanning from the left without
  overlap, is replaced by \<open>new\<close>.
\<close>

function replace :: "string \<Rightarrow> string \<Rightarrow> string \<Rightarrow> string" where
  "replace [] old new = (if old = [] then new else [])"
| "replace (c # cs) old new =
     (if old = [] then new @ c # replace cs old new
      else if startswith (c # cs) old
           then new @ replace (drop (length old) (c # cs)) old new
           else c # replace cs old new)"
  by pat_completeness auto
termination
  by (relation "measure (\<lambda>(s, old, new). length s)") auto

text \<open>\<^verbatim>\<open>sep.join(xs)\<close>.\<close>

fun join :: "string \<Rightarrow> string list \<Rightarrow> string" where
  "join sep [] = []"
| "join sep [x] = x"
| "join sep (x # y # ys) = x @ sep @ join sep (y # ys)"

text \<open>\<^verbatim>\<open>str(n)\<close> for a length or a count \<open>n\<close>.\<close>

fun str_nat :: "nat \<Rightarrow> string" where
  "str_nat n =
     (if n < 10 then [char_of (48 + n)]
      else str_nat (n div 10) @ [char_of (48 + n mod 10)])"

declare str_nat.simps [simp del]

text \<open>An f-string fragment \<^verbatim>\<open>'{s}'\<close>: the text between two apostrophes.\<close>

definition quoted :: "string \<Rightarrow> string" where
  "quoted s = CHR 0x27 # s @ [CHR 0x27]"

subsection \<open>Dates and times\<close>

text \<open>
  A \<^verbatim>\<open>datetime\<close> object: the calendar fields, and the offset from UTC in microseconds
  of an aware object (\<open>None\<close> for a naive one).
\<close>

record datetime =
  year :: int
  month :: int
  day :: int
  hour :: int
  minute :: int
  second :: int
  microsecond :: int
  utcoffset :: "int option"

definition is_leap :: "int \<Rightarrow> bool" where
  "is_leap y = (y mod 4 = 0 \<and> (y mod 100 \<noteq> 0 \<or> y mod 400 = 0))"

definition days_before_year :: "int \<Rightarrow> int" where
  "days_before_year y = (y - 1) * 365 + (y - 1) div 4 - (y - 1) div 100 + (y - 1) div 400"

definition days_in_month :: "int \<Rightarrow> int \<Rightarrow> int" where
  "days_in_month y m =
     (if m = 2 then (if is_leap y then 29 else 28)
      else if m \<in> {4, 6, 9, 11} then 30 else 31)"

definition days_before_month :: "int \<Rightarrow> int \<Rightarrow> int" where
  "days_before_month y m = (\<Sum>k \<leftarrow> [1 ..< nat m]. days_in_month y (int k))"

text \<open>\<^verbatim>\<open>d.toordinal()\<close>: the day number of the date of \<open>d\<close>, 0001-01-01 being day 1.\<close>

definition toordinal :: "datetime \<Rightarrow> int" where
  "toordinal d = days_before_year (year d) + days_before_month (year d) (month d) + day d"

definition us_per_day :: int where
  "us_per_day = 86400000000"

text \<open>The wall-clock reading of \<open>d\<close> in microseconds.\<close>

definition wall_us :: "datetime \<Rightarrow> int" where
  "wall_us d =
     toordinal d * us_per_day
     + ((hour d * 60 + minute d) * 60 + second d) * 1000000 + microsecond d"

text \<open>The instant an aware \<open>d\<close> denotes, in UTC; for a naive \<open>d\<close> its wall-clock reading.\<close>

definition instant :: "datetime \<Rightarrow> int" where
  "instant d = (case utcoffset d of None \<Rightarrow> wall_us d | Some off \<Rightarrow> wall_us d - off)"

definition naive :: "datetime \<Rightarrow> bool" where
  "naive d = (utcoffset d = None)"

text \<open>
  Python orders two naive \<^verbatim>\<open>datetime\<close> objects by their fields and two aware ones by
  their instants; comparing a naive with an aware object raises \<^verbatim>\<open>TypeError\<close>.
\<close>

datatype error = TypeError | IndexError

text \<open>
  What the interpreter takes from outside the repository: \<^verbatim>\<open>datetime.fromisoformat\<close>
  (\<open>None\<close> where it raises), \<^verbatim>\<open>strftime("%d %B %Y")\<close>, and the reading of the clock,
  \<^verbatim>\<open>datetime.now()\<close>, a naive object.
\<close>

record pyenv =
  fromisoformat :: "string \<Rightarrow> datetime option"
  strftime_dBY :: "datetime \<Rightarrow> string"
  now :: datetime

text \<open>\<^verbatim>\<open>format_date_iso\<close> (lines 64-71).\<close>

definition format_date_iso :: "pyenv \<Rightarrow> string \<Rightarrow> string" where
  "format_date_iso E s =
     (if s = [] then []
      else case fromisoformat E s of
             Some d \<Rightarrow> strftime_dBY E d
           | None \<Rightarrow> s)"

text \<open>\<^verbatim>\<open>today_start\<close> (lines 73-75).\<close>

definition today_start :: "pyenv \<Rightarrow> datetime" where
  "today_start E = (now E)\<lparr>hour := 0, minute := 0, second := 0, microsecond := 0\<rparr>"

text \<open>
  \<^verbatim>\<open>timedelta(days=n)\<close> in microseconds. The clock is taken to be more than a week
  before \<^verbatim>\<open>datetime.max\<close>, so that adding it to \<^verbatim>\<open>today_start()\<close> stays in range.
\<close>

definition timedelta_days :: "int \<Rightarrow> int" where
  "timedelta_days n = n * us_per_day"

subsection \<open>Tasks and profile\<close>

text \<open>
  A task is the dictionary \<^verbatim>\<open>api_tasks\<close> builds (lines 143-150): the keys \<^verbatim>\<open>id\<close>,
  \<^verbatim>\<open>name\<close>, \<^verbatim>\<open>deadline\<close>, \<^verbatim>\<open>priority\<close>, \<^verbatim>\<open>note\<close> and \<^verbatim>\<open>done\<close>, all present, with
  strings and a boolean as values. On such a dictionary \<^verbatim>\<open>t.get(k, default)\<close> and \<^verbatim>\<open>t[k]\<close>
  both read the field. The deadline is any string: \<^verbatim>\<open>api_tasks\<close> stores what
  \<^verbatim>\<open>isoformat()\<close> writes, with the offset from UTC when the request gave one.
\<close>

record task =
  t_id :: string
  t_name :: string
  t_deadline :: string
  t_priority :: string
  t_note :: string
  t_done :: bool

text \<open>The profile is a dictionary; \<^verbatim>\<open>profile.get("plan", "basic")\<close> reads it.\<close>

type_synonym profile = "string \<rightharpoonup> string"

definition dict_get :: "profile \<Rightarrow> string \<Rightarrow> string \<Rightarrow> string" where
  "dict_get p k dflt = (case p k of Some v \<Rightarrow> v | None \<Rightarrow> dflt)"

subsection \<open>Sorting by deadline\<close>

text \<open>
  \<^verbatim>\<open>xs.sort(key=...)\<close> where the keys are \<^verbatim>\<open>datetime\<close> objects or \<^verbatim>\<open>None\<close>. The sort is
  stable and ascending. A list of fewer than two items is never compared. A longer list
  is compared along enough pairs to link all its items, so the sort raises
  \<^verbatim>\<open>TypeError\<close> exactly when the keys are not all naive objects or all aware objects.
\<close>

definition comparable_keys :: "datetime option list \<Rightarrow> bool" where
  "comparable_keys ks =
     (list_all (\<lambda>k. case k of Some d \<Rightarrow> naive d | None \<Rightarrow> False) ks
      \<or> list_all (\<lambda>k. case k of Some d \<Rightarrow> \<not> naive d | None \<Rightarrow> False) ks)"

definition rank :: "datetime option \<Rightarrow> int" where
  "rank k = (case k of Some d \<Rightarrow> instant d | None \<Rightarrow> 0)"

definition list_sort :: "('a \<Rightarrow> datetime option) \<Rightarrow> 'a list \<Rightarrow> error + 'a list" where
  "list_sort key xs =
     (if length xs \<le> 1 then Inr xs
      else if comparable_keys (map key xs) then Inr (sort_key (\<lambda>x. rank (key x)) xs)
      else Inl TypeError)"

subsection \<open>The interpreter\<close>

text \<open>
  What \<^verbatim>\<open>ai_process\<close> returns: a plain string, or the dictionary
  \<^verbatim>\<open>{"reply": ..., "_save": True}\<close> that asks the caller to write the task list back.
\<close>

datatype answer = Text string | Save string

fun reply_of :: "answer \<Rightarrow> string" where
  "reply_of (Text r) = r"
| "reply_of (Save r) = r"

fun save_of :: "answer \<Rightarrow> bool" where
  "save_of (Text r) = False"
| "save_of (Save r) = True"

text \<open>The name filter of the two commands: \<^verbatim>\<open>name in t.get("name","").lower()\<close>.\<close>

definition name_match :: "string \<Rightarrow> task \<Rightarrow> bool" where
  "name_match name t = str_in name (lower (t_name t))"

text \<open>
  Lines 263-271. The list is changed in place: the second component is the list after
  the call.
\<close>

definition hapus :: "string \<Rightarrow> task list \<Rightarrow> answer \<times> task list" where
  "hapus text tasks =
     (let name = strip (replace text ''hapus'' []);
          found = filter (name_match name) tasks
      in case found of
           [t] \<Rightarrow> (Save (''Tugas '' @ quoted (t_name t) @ '' dihapus.''), remove1 t tasks)
         | _ # _ # _ \<Rightarrow>
             (Text (''Ditemukan '' @ str_nat (length found)
                    @ '' tugas. Sebutkan nama lebih spesifik.''), tasks)
         | [] \<Rightarrow> (Text (''Tugas '' @ quoted name @ '' tidak ditemukan.''), tasks))"

text \<open>\<^verbatim>\<open>f["done"] = True\<close> on the first task that matches.\<close>

fun set_done_first :: "(task \<Rightarrow> bool) \<Rightarrow> task list \<Rightarrow> task list" where
  "set_done_first P [] = []"
| "set_done_first P (t # ts) =
     (if P t then t\<lparr>t_done := True\<rparr> # ts else t # set_done_first P ts)"

text \<open>Lines 273-279.\<close>

definition selesai :: "string \<Rightarrow> task list \<Rightarrow> answer \<times> task list" where
  "selesai text tasks =
     (let name = strip (replace text ''selesai'' [])
      in case find (name_match name) tasks of
           Some f \<Rightarrow>
             (Save (''Tugas '' @ quoted (t_name f) @ '' ditandai selesai.''),
              set_done_first (name_match name) tasks)
         | None \<Rightarrow> (Text (''Tugas '' @ quoted name @ '' tidak ditemukan.''), tasks))"

definition parse_dt :: "pyenv \<Rightarrow> task \<Rightarrow> datetime option" where
  "parse_dt E t = fromisoformat E (t_deadline t)"

text \<open>Lines 282-294. The sort works on a new list; the task list is only read.\<close>

definition terdekat :: "pyenv \<Rightarrow> task list \<Rightarrow> error + string" where
  "terdekat E tasks =
     (let upcoming = filter (\<lambda>t. \<not> t_done t) tasks;
          upcoming = filter (\<lambda>t. parse_dt E t \<noteq> None) upcoming
      in if upcoming = []
         then Inr ''Tidak ada tugas mendatang atau semua deadline tidak valid.''
         else case list_sort (parse_dt E) upcoming of
                Inl e \<Rightarrow> Inl e
              | Inr [] \<Rightarrow> Inl IndexError
              | Inr (t # _) \<Rightarrow>
                  Inr (''Deadline terdekat adalah '' @ quoted (t_name t) @ '' pada ''
                       @ format_date_iso E (t_deadline t) @ ''.''))"

text \<open>
  Lines 296-308. Inside the \<^verbatim>\<open>try\<close>, a deadline that does not parse and an aware deadline
  (whose comparison with the naive \<^verbatim>\<open>now\<close> raises) are both skipped.
\<close>

definition in_week :: "pyenv \<Rightarrow> task \<Rightarrow> bool" where
  "in_week E t =
     (let now0 = wall_us (today_start E); end_us = now0 + timedelta_days 7
      in case fromisoformat E (t_deadline t) of
           None \<Rightarrow> False
         | Some d \<Rightarrow> naive d \<and> now0 \<le> wall_us d \<and> wall_us d \<le> end_us \<and> \<not> t_done t)"

definition minggu :: "pyenv \<Rightarrow> task list \<Rightarrow> string" where
  "minggu E tasks =
     (let lst = filter (in_week E) tasks
      in if lst = [] then ''Tidak ada tugas minggu ini.''
         else ''Tugas minggu ini:'' @ [CHR 0x0A]
              @ join [CHR 0x0A]
                  (map (\<lambda>x. ''- '' @ t_name x @ '' ('' @ format_date_iso E (t_deadline x) @ '')'')
                       lst))"

text \<open>Lines 310-322: \<^verbatim>\<open>d.date() == tom.date()\<close> compares the day numbers.\<close>

definition is_tomorrow :: "pyenv \<Rightarrow> task \<Rightarrow> bool" where
  "is_tomorrow E t =
     (case fromisoformat E (t_deadline t) of
        None \<Rightarrow> False
      | Some d \<Rightarrow> toordinal d = toordinal (today_start E) + 1 \<and> \<not> t_done t)"

definition besok :: "pyenv \<Rightarrow> task list \<Rightarrow> string" where
  "besok E tasks =
     (let lst = filter (is_tomorrow E) tasks
      in if lst = [] then ''Tidak ada tugas untuk besok.''
         else ''Tugas besok:'' @ [CHR 0x0A]
              @ join [CHR 0x0A] (map (\<lambda>x. ''- '' @ t_name x) lst))"

text \<open>Lines 324-326.\<close>

definition berapa :: "task list \<Rightarrow> string" where
  "berapa tasks =
     (let cnt = length (filter (\<lambda>t. \<not> t_done t) tasks)
      in ''Kamu punya '' @ str_nat cnt @ '' tugas.'')"

text \<open>Lines 328-333: the two renderings of a line of the list.\<close>

definition bullet :: string where
  "bullet = [CHR 0xE2, CHR 0x80, CHR 0xA2]"

definition line_basic :: "pyenv \<Rightarrow> task \<Rightarrow> string" where
  "line_basic E t = ''- '' @ t_name t @ '' ('' @ format_date_iso E (t_deadline t) @ '')''"

definition line_pro :: "pyenv \<Rightarrow> task \<Rightarrow> string" where
  "line_pro E t =
     ''- '' @ t_name t @ '' ('' @ format_date_iso E (t_deadline t) @ '') '' @ bullet
     @ '' '' @ upper (t_priority t) @ '' '' @ bullet @ '' '' @ t_note t"

definition daftar :: "pyenv \<Rightarrow> task list \<Rightarrow> profile \<Rightarrow> string" where
  "daftar E tasks profile =
     (if tasks = [] then ''Belum ada tugas.''
      else if dict_get profile ''plan'' ''basic'' = ''pro''
      then ''Daftar tugas:'' @ [CHR 0x0A] @ join [CHR 0x0A] (map (line_pro E) tasks)
      else ''Daftar tugas:'' @ [CHR 0x0A] @ join [CHR 0x0A] (map (line_basic E) tasks))"

text \<open>Lines 335-343: the first task whose lower-cased name occurs in the text.\<close>

definition fallback :: string where
  "fallback =
     ''Saya tidak paham. Coba: '' @ quoted ''deadline terdekat'' @ '', ''
     @ quoted ''tugas minggu ini'' @ '', '' @ quoted ''tugas besok'' @ '', ''
     @ quoted ''berapa tugas saya'' @ '', atau '' @ quoted ''hapus <nama tugas>'' @ ''.''"

definition direct :: "pyenv \<Rightarrow> string \<Rightarrow> task list \<Rightarrow> profile \<Rightarrow> string" where
  "direct E text tasks profile =
     (case find (\<lambda>t. str_in (lower (t_name t)) text) tasks of
        Some t \<Rightarrow>
          if dict_get profile ''plan'' ''basic'' = ''pro''
          then ''Deadline '' @ quoted (t_name t) @ '': '' @ format_date_iso E (t_deadline t)
               @ [CHR 0x0A] @ ''Priority: '' @ t_priority t
               @ [CHR 0x0A] @ ''Note: '' @ t_note t
          else ''Deadline '' @ quoted (t_name t) @ '': '' @ format_date_iso E (t_deadline t)
      | None \<Rightarrow> fallback)"

definition greeting :: string where
  "greeting = ''Hai! Ada yang bisa saya bantu?''"

definition identity :: string where
  "identity =
     ''Saya SmartTask AI '' @ [CHR 0xE2, CHR 0x80, CHR 0x94] @ '' asisten tugas dan pengingat.''"

definition wellbeing :: string where
  "wellbeing = ''Baik, terima kasih! Kamu gimana?''"

text \<open>\<^verbatim>\<open>text = q.lower().strip()\<close> (line 252).\<close>

definition normalize :: "string \<Rightarrow> string" where
  "normalize q = strip (lower q)"

text \<open>
  \<^verbatim>\<open>ai_process\<close> (lines 251-343): the rules in the order of the source. The result is
  what the call returns or raises, and the task list as the call leaves it.
\<close>

definition ai_process ::
  "pyenv \<Rightarrow> string \<Rightarrow> task list \<Rightarrow> profile \<Rightarrow> (error + answer) \<times> task list" where
  "ai_process E q tasks profile =
     (let text = normalize q
      in if list_ex (\<lambda>w. str_in w text) [''halo'', ''hai'', ''hello'', ''hi'']
         then (Inr (Text greeting), tasks)
         else if str_in ''siapa kamu'' text \<or> str_in ''kamu siapa'' text
         then (Inr (Text identity), tasks)
         else if str_in ''apa kabar'' text
         then (Inr (Text wellbeing), tasks)
         else if startswith text ''hapus''
         then (case hapus text tasks of (a, tasks') \<Rightarrow> (Inr a, tasks'))
         else if startswith text ''selesai''
         then (case selesai text tasks of (a, tasks') \<Rightarrow> (Inr a, tasks'))
         else if str_in ''terdekat'' text \<or> str_in ''deadline terdekat'' text
         then (map_sum id Text (terdekat E tasks), tasks)
         else if str_in ''minggu'' text
         then (Inr (Text (minggu E tasks)), tasks)
         else if str_in ''besok'' text
         then (Inr (Text (besok E tasks)), tasks)
         else if str_in ''berapa'' text \<or> str_in ''jumlah'' text
         then (Inr (Text (berapa tasks)), tasks)
         else if list_ex (\<lambda>k. str_in k text) [''tampilkan'', ''semua'', ''daftar'']
         then (Inr (Text (daftar E tasks profile)), tasks)
         else (Inr (Text (direct E text tasks profile)), tasks))"

subsection \<open>The caller\<close>

text \<open>
  \<^verbatim>\<open>api_query\<close> (lines 226-249), from the query string of the payload on: the HTTP status,
  the \<^verbatim>\<open>ok\<close> field and the reply of the response, and the task file after the request.
  The file is written only for an answer that carries \<^verbatim>\<open>_save\<close>.
\<close>

record response =
  status :: nat
  ok :: bool
  reply :: string

definition api_query ::
  "pyenv \<Rightarrow> string \<Rightarrow> task list \<Rightarrow> profile \<Rightarrow> response \<times> task list" where
  "api_query E payload_q file profile =
     (let q = strip payload_q
      in if q = [] then (\<lparr>status = 400, ok = False, reply = ''Pertanyaan kosong''\<rparr>, file)
         else case ai_process E q file profile of
                (Inl e, tasks) \<Rightarrow>
                  (\<lparr>status = 500, ok = False, reply = ''Terjadi kesalahan server''\<rparr>, file)
              | (Inr (Save r), tasks) \<Rightarrow> (\<lparr>status = 200, ok = True, reply = r\<rparr>, tasks)
              | (Inr (Text r), tasks) \<Rightarrow> (\<lparr>status = 200, ok = True, reply = r\<rparr>, file))"

subsection \<open>The conditions of the rules\<close>

text \<open>The three small-talk rules (lines 255-260) come before every command and query.\<close>

definition small_talk :: "string \<Rightarrow> bool" where
  "small_talk text =
     (list_ex (\<lambda>w. str_in w text) [''halo'', ''hai'', ''hello'', ''hi'']
      \<or> str_in ''siapa kamu'' text \<or> str_in ''kamu siapa'' text
      \<or> str_in ''apa kabar'' text)"

text \<open>A word that lower-casing and trimming leave as it is.\<close>

definition plain_word :: "string \<Rightarrow> bool" where
  "plain_word w =
     (w \<noteq> [] \<and> list_all (\<lambda>c. c \<notin> set whitespace \<and> c \<notin> set ascii_uppercase) w)"

text \<open>
  The filter as the specification words it: the text with the leading command word
  stripped, trimmed.
\<close>

definition remainder :: "string \<Rightarrow> string \<Rightarrow> string" where
  "remainder cmd text = strip (drop (length cmd) text)"

text \<open>The two paths on which \<^verbatim>\<open>ai_process\<close> returns \<^verbatim>\<open>_save\<close>.\<close>

definition deletes :: "string \<Rightarrow> task list \<Rightarrow> bool" where
  "deletes q tasks =
     (let text = normalize q
      in \<not> small_talk text \<and> startswith text ''hapus''
         \<and> length (filter (name_match (strip (replace text ''hapus'' []))) tasks) = 1)"

definition marks_done :: "string \<Rightarrow> task list \<Rightarrow> bool" where
  "marks_done q tasks =
     (let text = normalize q
      in \<not> small_talk text \<and> \<not> startswith text ''hapus'' \<and> startswith text ''selesai''
         \<and> list_ex (name_match (strip (replace text ''selesai'' []))) tasks)"

text \<open>The text reaches the list-all rule (line 328): no earlier rule takes it.\<close>

definition list_all_query :: "string \<Rightarrow> bool" where
  "list_all_query text =
     (\<not> small_talk text \<and> \<not> startswith text ''hapus'' \<and> \<not> startswith text ''selesai''
      \<and> \<not> str_in ''terdekat'' text \<and> \<not> str_in ''minggu'' text \<and> \<not> str_in ''besok'' text
      \<and> \<not> str_in ''berapa'' text \<and> \<not> str_in ''jumlah'' text
      \<and> list_ex (\<lambda>k. str_in k text) [''tampilkan'', ''semua'', ''daftar''])"

text \<open>The tasks the nearest-deadline rule sorts: not done, with a deadline that parses.\<close>

definition eligible :: "pyenv \<Rightarrow> task list \<Rightarrow> task list" where
  "eligible E tasks = filter (\<lambda>t. \<not> t_done t \<and> parse_dt E t \<noteq> None) tasks"

text \<open>The text reaches the nearest-deadline rule (line 282).\<close>

definition nearest_query :: "string \<Rightarrow> bool" where
  "nearest_query text =
     (\<not> small_talk text \<and> \<not> startswith text ''hapus'' \<and> \<not> startswith text ''selesai''
      \<and> str_in ''terdekat'' text)"

subsection \<open>A concrete environment for the examples\<close>

text \<open>
  A reader for the strings \<^verbatim>\<open>isoformat()\<close> writes for whole seconds,
  \<^verbatim>\<open>YYYY-MM-DD\<close> and \<^verbatim>\<open>YYYY-MM-DDTHH:MM:SS\<close> with an optional offset \<^verbatim>\<open>+HH:MM\<close> or
  \<^verbatim>\<open>-HH:MM\<close>, on which it agrees with \<^verbatim>\<open>datetime.fromisoformat\<close>. It is used in the
  examples only; the general theorems hold for every reader.
\<close>

definition digit :: "char \<Rightarrow> int option" where
  "digit c = map_of (zip ''0123456789'' [0, 1, 2, 3, 4, 5, 6, 7, 8, 9]) c"

definition number :: "string \<Rightarrow> int option" where
  "number s =
     (if s \<noteq> [] \<and> list_all (\<lambda>c. digit c \<noteq> None) s
      then Some (foldl (\<lambda>a c. 10 * a + (case digit c of Some v \<Rightarrow> v | None \<Rightarrow> 0)) 0 s)
      else None)"

definition iso_date :: "string \<Rightarrow> (int \<times> int \<times> int) option" where
  "iso_date s =
     (case (number (take 4 s), number (take 2 (drop 5 s)), number (drop 8 s)) of
        (Some y, Some m, Some d) \<Rightarrow>
          if length s = 10 \<and> take 1 (drop 4 s) = ''-'' \<and> take 1 (drop 7 s) = ''-''
             \<and> 1 \<le> y \<and> 1 \<le> m \<and> m \<le> 12 \<and> 1 \<le> d \<and> d \<le> days_in_month y m
          then Some (y, m, d) else None
      | _ \<Rightarrow> None)"

definition iso_time :: "string \<Rightarrow> (int \<times> int \<times> int) option" where
  "iso_time s =
     (case (number (take 2 s), number (take 2 (drop 3 s)), number (drop 6 s)) of
        (Some h, Some mi, Some sec) \<Rightarrow>
          if length s = 8 \<and> take 1 (drop 2 s) = '':'' \<and> take 1 (drop 5 s) = '':''
             \<and> h < 24 \<and> mi < 60 \<and> sec < 60
          then Some (h, mi, sec) else None
      | _ \<Rightarrow> None)"

definition iso_offset :: "string \<Rightarrow> int option option" where
  "iso_offset s =
     (if s = [] then Some None
      else case (number (take 2 (drop 1 s)), number (drop 4 s)) of
             (Some h, Some mi) \<Rightarrow>
               if length s = 6 \<and> take 1 (drop 3 s) = '':'' \<and> h < 24 \<and> mi < 60
               then (if take 1 s = ''+'' then Some (Some ((h * 60 + mi) * 60000000))
                     else if take 1 s = ''-'' then Some (Some (- ((h * 60 + mi) * 60000000)))
                     else None)
               else None
           | _ \<Rightarrow> None)"

definition iso_read :: "string \<Rightarrow> datetime option" where
  "iso_read s =
     (case iso_date (take 10 s) of
        None \<Rightarrow> None
      | Some (y, m, d) \<Rightarrow>
          if length s = 10
          then Some \<lparr>year = y, month = m, day = d, hour = 0, minute = 0, second = 0,
                     microsecond = 0, utcoffset = None\<rparr>
          else if take 1 (drop 10 s) = ''T''
          then (case (iso_time (take 8 (drop 11 s)), iso_offset (drop 19 s)) of
                  (Some (h, mi, sec), Some off) \<Rightarrow>
                    Some \<lparr>year = y, month = m, day = d, hour = h, minute = mi, second = sec,
                          microsecond = 0, utcoffset = off\<rparr>
                | _ \<Rightarrow> None)
          else None)"

text \<open>\<^verbatim>\<open>strftime("%d %B %Y")\<close> in the C locale, for a year of four digits.\<close>

definition month_names :: "string list" where
  "month_names =
     [''January'', ''February'', ''March'', ''April'', ''May'', ''June'', ''July'',
      ''August'', ''September'', ''October'', ''November'', ''December'']"

definition c_strftime_dBY :: "datetime \<Rightarrow> string" where
  "c_strftime_dBY d =
     (if day d < 10 then ''0'' else []) @ str_nat (nat (day d)) @ '' ''
     @ (case map_of (zip [1, 2, 3, 4, 5, 6, 7, 8, 9, 10, 11, 12] month_names) (month d) of
          Some n \<Rightarrow> n | None \<Rightarrow> [])
     @ '' '' @ str_nat (nat (year d))"

text \<open>The environment of the examples: the clock reads 2025-01-04 09:30.\<close>

definition env0 :: pyenv where
  "env0 =
     \<lparr>fromisoformat = iso_read, strftime_dBY = c_strftime_dBY,
      now = \<lparr>year = 2025, month = 1, day = 4, hour = 9, minute = 30, second = 0,
             microsecond = 0, utcoffset = None\<rparr>\<rparr>"

text \<open>A task as \<^verbatim>\<open>api_tasks\<close> creates it: priority \<^verbatim>\<open>medium\<close>, no note, not done.\<close>

definition new_task :: "string \<Rightarrow> string \<Rightarrow> string \<Rightarrow> task" where
  "new_task i n dl =
     \<lparr>t_id = i, t_name = n, t_deadline = dl, t_priority = ''medium'', t_note = [],
      t_done = False\<rparr>"

section \<open>Properties\<close>

subsection \<open>Strings\<close>

lemma startswith_prefix: "startswith s p \<longleftrightarrow> prefix p s"
  by (induction s p rule: startswith.induct) auto

lemma str_in_sublist: "str_in w s \<longleftrightarrow> sublist w s"
  by (induction s) (auto simp: startswith_prefix sublist_Cons_right)

lemma replace_absent: "old \<noteq> [] \<Longrightarrow> \<not> str_in old s \<Longrightarrow> replace s old new = s"
  by (induction s) auto

lemma replace_prefix:
  assumes "old \<noteq> []" "startswith s old"
  shows "replace s old new = new @ replace (drop (length old) s) old new"
  using assms by (cases s; cases old) auto

lemma replace_only_prefix:
  assumes "old \<noteq> []" "startswith s old" "\<not> str_in old (drop (length old) s)"
  shows "strip (replace s old []) = remainder old s"
  using assms by (simp add: replace_prefix replace_absent remainder_def)


lemma dropWhile_keeps:
  assumes "w \<noteq> []" "\<not> P (hd w)"
  shows "\<exists>x'. dropWhile P (x @ w @ y) = x' @ w @ y"
proof (cases "\<forall>c \<in> set x. P c")
  case True
  from assms have "dropWhile P (w @ y) = w @ y" by (cases w) auto
  with True have "dropWhile P (x @ w @ y) = [] @ w @ y" by (simp add: dropWhile_append)
  then show ?thesis by blast
next
  case False
  then have "dropWhile P (x @ w @ y) = dropWhile P x @ w @ y" by (auto simp: dropWhile_append)
  then show ?thesis by blast
qed

lemma strip_keeps:
  assumes "w \<noteq> []" "\<forall>c \<in> set w. \<not> isspace c"
  shows "\<exists>x' y'. strip (x @ w @ y) = x' @ w @ y'"
proof -
  from assms have h: "\<not> isspace (hd w)" by (cases w) auto
  from assms have l: "rev w \<noteq> []" "\<not> isspace (hd (rev w))"
    by (auto simp: hd_rev)
  from dropWhile_keeps[of w isspace x y] assms(1) h obtain x' where
    a: "dropWhile isspace (x @ w @ y) = x' @ w @ y" by blast
  from dropWhile_keeps[of "rev w" isspace "rev y" "rev x'"] l obtain z where
    b: "dropWhile isspace (rev y @ rev w @ rev x') = z @ rev w @ rev x'" by blast
  have "strip (x @ w @ y) = x' @ w @ rev z"
    by (simp add: strip_def a b)
  then show ?thesis by blast
qed


lemma str_in_normalize:
  assumes "str_in w q" "w \<noteq> []" "\<forall>c \<in> set w. \<not> isspace c \<and> lower_char c = c"
  shows "str_in w (normalize q)"
proof -
  from assms(1) obtain a b where q: "q = a @ w @ b"
    by (auto simp: str_in_sublist sublist_def)
  from assms(3) have "map lower_char w = w" by (induction w) auto
  then have "lower q = lower a @ w @ lower b" by (simp add: q lower_def)
  moreover from assms obtain x' y' where "strip (lower a @ w @ lower b) = x' @ w @ y'"
    using strip_keeps[of w "lower a" "lower b"] by blast
  ultimately show ?thesis by (simp add: normalize_def str_in_sublist)
qed


lemma lower_char_id: "c \<notin> set ascii_uppercase \<Longrightarrow> lower_char c = c"
proof -
  assume "c \<notin> set ascii_uppercase"
  moreover have "length ascii_uppercase = length ascii_lowercase"
    by (simp add: ascii_uppercase_def ascii_lowercase_def)
  ultimately have "map_of (zip ascii_uppercase ascii_lowercase) c = None"
    by (simp add: map_of_zip_is_None)
  then show ?thesis by (simp add: lower_char_def)
qed

lemma plain_word_normalize: "plain_word w \<Longrightarrow> str_in w q \<Longrightarrow> str_in w (normalize q)"
  by (rule str_in_normalize) (auto simp: plain_word_def list_all_iff isspace_def lower_char_id)

lemma greeting_words_plain: "list_all plain_word [''halo'', ''hai'', ''hello'', ''hi'']"
  by (simp add: plain_word_def whitespace_def ascii_uppercase_def)

subsection \<open>The rules, one at a time\<close>

lemma ai_process_greeting:
  "list_ex (\<lambda>w. str_in w (normalize q)) [''halo'', ''hai'', ''hello'', ''hi'']
   \<Longrightarrow> ai_process E q tasks p = (Inr (Text greeting), tasks)"
  by (simp add: ai_process_def Let_def)

lemma ai_process_small_talk:
  "small_talk (normalize q) \<Longrightarrow>
     snd (ai_process E q tasks p) = tasks \<and> (\<exists>r. fst (ai_process E q tasks p) = Inr (Text r))"
  by (auto simp: ai_process_def small_talk_def Let_def)

lemma ai_process_hapus:
  "\<not> small_talk (normalize q) \<Longrightarrow> startswith (normalize q) ''hapus'' \<Longrightarrow>
     ai_process E q tasks p =
       (Inr (fst (hapus (normalize q) tasks)), snd (hapus (normalize q) tasks))"
  by (simp add: ai_process_def small_talk_def Let_def split: prod.split)

lemma ai_process_selesai:
  "\<not> small_talk (normalize q) \<Longrightarrow> \<not> startswith (normalize q) ''hapus'' \<Longrightarrow>
   startswith (normalize q) ''selesai'' \<Longrightarrow>
     ai_process E q tasks p =
       (Inr (fst (selesai (normalize q) tasks)), snd (selesai (normalize q) tasks))"
  by (simp add: ai_process_def small_talk_def Let_def split: prod.split)

lemma ai_process_query:
  "\<not> small_talk (normalize q) \<Longrightarrow> \<not> startswith (normalize q) ''hapus'' \<Longrightarrow>
   \<not> startswith (normalize q) ''selesai'' \<Longrightarrow>
     snd (ai_process E q tasks p) = tasks
     \<and> (\<forall>a. fst (ai_process E q tasks p) = Inr a \<longrightarrow> \<not> save_of a)"
  by (cases "terdekat E tasks") (auto simp: ai_process_def small_talk_def Let_def)

lemma hapus_save:
  "save_of (fst (hapus text tasks))
   \<longleftrightarrow> length (filter (name_match (strip (replace text ''hapus'' []))) tasks) = 1"
  by (simp add: hapus_def Let_def split: list.split)

lemma hapus_frame:
  "length (filter (name_match (strip (replace text ''hapus'' []))) tasks) \<noteq> 1
   \<Longrightarrow> snd (hapus text tasks) = tasks"
  by (auto simp: hapus_def Let_def split: list.split)

lemma find_SomeD: "find P xs = Some x \<Longrightarrow> P x \<and> x \<in> set xs"
  by (induction xs) (auto split: if_splits)

lemma selesai_save:
  "save_of (fst (selesai text tasks))
   \<longleftrightarrow> list_ex (name_match (strip (replace text ''selesai'' []))) tasks"
  by (auto simp: selesai_def Let_def list_ex_iff find_None_iff split: option.split dest: find_SomeD)

lemma selesai_frame:
  "\<not> list_ex (name_match (strip (replace text ''selesai'' []))) tasks
   \<Longrightarrow> snd (selesai text tasks) = tasks"
  by (auto simp: selesai_def Let_def list_ex_iff find_None_iff split: option.split dest: find_SomeD)

lemma no_save_frame:
  assumes "\<forall>a. fst (ai_process E q tasks p) = Inr a \<longrightarrow> \<not> save_of a"
  shows "snd (ai_process E q tasks p) = tasks"
proof (cases "small_talk (normalize q)")
  case True
  then show ?thesis by (simp add: ai_process_small_talk)
next
  case st: False
  show ?thesis
  proof (cases "startswith (normalize q) ''hapus''")
    case True
    with st assms have "\<not> save_of (fst (hapus (normalize q) tasks))"
      by (simp add: ai_process_hapus)
    then have "snd (hapus (normalize q) tasks) = tasks"
      by (simp add: hapus_save hapus_frame)
    with st True show ?thesis by (simp add: ai_process_hapus)
  next
    case h: False
    show ?thesis
    proof (cases "startswith (normalize q) ''selesai''")
      case True
      with st h assms have "\<not> save_of (fst (selesai (normalize q) tasks))"
        by (simp add: ai_process_selesai)
      then have "snd (selesai (normalize q) tasks) = tasks"
        by (simp add: selesai_save selesai_frame)
      with st h True show ?thesis by (simp add: ai_process_selesai)
    next
      case False
      with st h show ?thesis by (simp add: ai_process_query)
    qed
  qed
qed

lemma save_paths:
  "(\<exists>a. fst (ai_process E q tasks p) = Inr a \<and> save_of a)
   \<longleftrightarrow> deletes q tasks \<or> marks_done q tasks"
proof (cases "small_talk (normalize q)")
  case True
  then obtain r where "fst (ai_process E q tasks p) = Inr (Text r)"
    using ai_process_small_talk by blast
  with True show ?thesis by (auto simp: deletes_def marks_done_def Let_def)
next
  case st: False
  show ?thesis
  proof (cases "startswith (normalize q) ''hapus''")
    case True
    with st show ?thesis
      by (simp add: ai_process_hapus hapus_save deletes_def marks_done_def Let_def)
  next
    case h: False
    show ?thesis
    proof (cases "startswith (normalize q) ''selesai''")
      case True
      with st h show ?thesis
        by (simp add: ai_process_selesai selesai_save deletes_def marks_done_def Let_def)
    next
      case False
      with st h ai_process_query[of q E tasks p] show ?thesis
        by (auto simp: deletes_def marks_done_def Let_def)
    qed
  qed
qed

subsection \<open>Rule precedence\<close>

text \<open>
  Claim C5. The greeting rule is the first one: a text in which one of the words
  \<^verbatim>\<open>halo\<close>, \<^verbatim>\<open>hai\<close>, \<^verbatim>\<open>hello\<close>, \<^verbatim>\<open>hi\<close> occurs (as typed, or after lower-casing and
  trimming) gets the static greeting, without \<^verbatim>\<open>_save\<close> and with the task list as it
  was, whatever else the text starts with or contains.
\<close>

theorem greeting_first:
  assumes "kw \<in> set [''halo'', ''hai'', ''hello'', ''hi'']"
    and "str_in kw q \<or> str_in kw (normalize q)"
  shows "ai_process E q tasks p = (Inr (Text greeting), tasks)"
proof -
  from assms(1) greeting_words_plain have "plain_word kw"
    by (auto simp: list_all_iff)
  with assms(2) have "str_in kw (normalize q)"
    by (auto intro: plain_word_normalize)
  with assms(1) have "list_ex (\<lambda>w. str_in w (normalize q)) [''halo'', ''hai'', ''hello'', ''hi'']"
    by auto
  then show ?thesis by (rule ai_process_greeting)
qed

theorem greeting_first_witness:
  "str_in ''hi'' ''Hapus history''
   \<and> startswith (normalize ''Hapus history'') ''hapus''
   \<and> ai_process env0 ''Hapus history''
        [new_task ''t1'' ''History essay'' ''2025-01-10T00:00:00''] Map.empty
      = (Inr (Text ''Hai! Ada yang bisa saya bantu?''),
         [new_task ''t1'' ''History essay'' ''2025-01-10T00:00:00''])"
proof -
  have k: "''hi'' \<in> set [''halo'', ''hai'', ''hello'', ''hi'']" by simp
  have h: "str_in ''hi'' ''Hapus history''" by simp
  have n: "startswith (normalize ''Hapus history'') ''hapus''" by code_simp
  from greeting_first[OF k disjI1[OF h]] h n show ?thesis
    by (simp add: greeting_def)
qed

subsection \<open>Frame and persistence\<close>

text \<open>
  Claim C9. A query whose answer does not carry \<^verbatim>\<open>_save\<close> leaves the task list as it
  was, so that asking it again, with the same profile and clock, returns the same
  answer.
\<close>

theorem read_only_idempotent:
  assumes "ai_process E q tasks p = (r, tasks')"
    and "\<forall>a. r = Inr a \<longrightarrow> \<not> save_of a"
  shows "tasks' = tasks \<and> ai_process E q tasks' p = (r, tasks')"
proof -
  from assms have "snd (ai_process E q tasks p) = tasks"
    by (intro no_save_frame) simp
  with assms(1) show ?thesis by simp
qed

theorem read_only_idempotent_witness:
  "ai_process env0 ''berapa tugas saya''
     [new_task ''t1'' ''Math HW'' ''2025-06-01T00:00:00'',
      (new_task ''t2'' ''Essay'' ''2025-06-02T00:00:00'')\<lparr>t_done := True\<rparr>,
      new_task ''t3'' ''Lab report'' ''2025-06-03T00:00:00''] Map.empty
   = (Inr (Text ''Kamu punya 2 tugas.''),
      [new_task ''t1'' ''Math HW'' ''2025-06-01T00:00:00'',
       (new_task ''t2'' ''Essay'' ''2025-06-02T00:00:00'')\<lparr>t_done := True\<rparr>,
       new_task ''t3'' ''Lab report'' ''2025-06-03T00:00:00''])"
proof -
  have a: "ai_process env0 ''berapa tugas saya''
     [new_task ''t1'' ''Math HW'' ''2025-06-01T00:00:00'',
      (new_task ''t2'' ''Essay'' ''2025-06-02T00:00:00'')\<lparr>t_done := True\<rparr>,
      new_task ''t3'' ''Lab report'' ''2025-06-03T00:00:00''] Map.empty
   = (Inr (Text ''Kamu punya 2 tugas.''),
      [new_task ''t1'' ''Math HW'' ''2025-06-01T00:00:00'',
       (new_task ''t2'' ''Essay'' ''2025-06-02T00:00:00'')\<lparr>t_done := True\<rparr>,
       new_task ''t3'' ''Lab report'' ''2025-06-03T00:00:00''])"
    by code_simp
  from read_only_idempotent[OF a] show ?thesis by simp
qed

text \<open>
  Claim C10. \<^verbatim>\<open>ai_process\<close> returns \<^verbatim>\<open>_save\<close> exactly on the two mutating paths, a delete
  with one match and a mark-done with a match; on every other path, small talk, the
  queries, the lookup by name and the fallback, and also when it raises, the task list
  is left as it was. \<^verbatim>\<open>api_query\<close> writes the task file on those two paths only.
\<close>

theorem mutation_only_on_save_paths:
  "((\<exists>a. fst (ai_process E q tasks p) = Inr a \<and> save_of a)
      \<longleftrightarrow> deletes q tasks \<or> marks_done q tasks)
   \<and> (\<not> deletes q tasks \<and> \<not> marks_done q tasks \<longrightarrow> snd (ai_process E q tasks p) = tasks)
   \<and> snd (api_query E q tasks p)
       = (if deletes (strip q) tasks \<or> marks_done (strip q) tasks
          then snd (ai_process E (strip q) tasks p) else tasks)"
proof (intro conjI impI)
  show "(\<exists>a. fst (ai_process E q tasks p) = Inr a \<and> save_of a)
          \<longleftrightarrow> deletes q tasks \<or> marks_done q tasks"
    by (rule save_paths)
  show "snd (ai_process E q tasks p) = tasks"
    if "\<not> deletes q tasks \<and> \<not> marks_done q tasks"
    using that save_paths[of E q tasks p] by (intro no_save_frame) blast
  show "snd (api_query E q tasks p)
       = (if deletes (strip q) tasks \<or> marks_done (strip q) tasks
          then snd (ai_process E (strip q) tasks p) else tasks)"
  proof (cases "strip q = []")
    case True
    have "normalize [] = []"
      by (simp add: normalize_def lower_def strip_def)
    with True have "normalize (strip q) = []"
      by (simp only:)
    then have "\<not> deletes (strip q) tasks \<and> \<not> marks_done (strip q) tasks"
      by (simp add: deletes_def marks_done_def)
    with True show ?thesis by (simp add: api_query_def)
  next
    case False
    obtain r ts where a: "ai_process E (strip q) tasks p = (r, ts)" by (cases "ai_process E (strip q) tasks p")
    show ?thesis
    proof (cases "deletes (strip q) tasks \<or> marks_done (strip q) tasks")
      case True
      with save_paths[of E "strip q" tasks p] a obtain x where "r = Inr x" "save_of x" by auto
      with True False a show ?thesis by (cases x) (simp_all add: api_query_def)
    next
      case d: False
      with save_paths[of E "strip q" tasks p] a have "\<forall>x. r = Inr x \<longrightarrow> \<not> save_of x" by auto
      with d False a show ?thesis
        by (auto simp: api_query_def split: sum.split answer.split)
    qed
  qed
qed

theorem mutation_only_on_save_paths_witness:
  "\<not> deletes ''jumlah tugas saya'' [new_task ''t1'' ''Math HW'' ''2025-06-01T00:00:00'']
   \<and> \<not> marks_done ''jumlah tugas saya'' [new_task ''t1'' ''Math HW'' ''2025-06-01T00:00:00'']
   \<and> snd (ai_process env0 ''jumlah tugas saya''
             [new_task ''t1'' ''Math HW'' ''2025-06-01T00:00:00''] Map.empty)
       = [new_task ''t1'' ''Math HW'' ''2025-06-01T00:00:00'']
   \<and> deletes ''hapus math'' [new_task ''t1'' ''Math HW'' ''2025-06-01T00:00:00'']
   \<and> (\<exists>a. fst (ai_process env0 ''hapus math''
                   [new_task ''t1'' ''Math HW'' ''2025-06-01T00:00:00''] Map.empty) = Inr a
            \<and> save_of a)"
proof -
  have a: "\<not> deletes ''jumlah tugas saya'' [new_task ''t1'' ''Math HW'' ''2025-06-01T00:00:00'']"
    by code_simp
  have b: "\<not> marks_done ''jumlah tugas saya'' [new_task ''t1'' ''Math HW'' ''2025-06-01T00:00:00'']"
    by code_simp
  have c: "deletes ''hapus math'' [new_task ''t1'' ''Math HW'' ''2025-06-01T00:00:00'']"
    by code_simp
  from a b c
    mutation_only_on_save_paths[of env0 "''jumlah tugas saya''"
      "[new_task ''t1'' ''Math HW'' ''2025-06-01T00:00:00'']" Map.empty]
    mutation_only_on_save_paths[of env0 "''hapus math''"
      "[new_task ''t1'' ''Math HW'' ''2025-06-01T00:00:00'']" Map.empty]
  show ?thesis by blast
qed

subsection \<open>The list of all tasks\<close>

lemma deadline_terdekat: "str_in ''deadline terdekat'' s \<Longrightarrow> str_in ''terdekat'' s"
proof -
  assume "str_in ''deadline terdekat'' s"
  moreover have "str_in ''terdekat'' ''deadline terdekat''" by simp
  ultimately show ?thesis
    unfolding str_in_sublist by (rule sublist_order.order_trans[rotated])
qed

lemma ai_process_daftar:
  "list_all_query (normalize q) \<Longrightarrow>
     ai_process E q tasks p = (Inr (Text (daftar E tasks p)), tasks)"
  by (auto simp: ai_process_def list_all_query_def small_talk_def Let_def
           dest: deadline_terdekat)

lemma plan_is_pro: "dict_get p ''plan'' ''basic'' = ''pro'' \<longleftrightarrow> p ''plan'' = Some ''pro''"
  by (simp add: dict_get_def split: option.split)

text \<open>
  Claim C8. When the list-all rule takes the text, each task is rendered on a line of
  its own. The line carries the upper-cased priority and the note exactly when the
  profile's plan is \<^verbatim>\<open>pro\<close>; for any other plan, and for a profile without one, it is the
  name and the formatted date only.
\<close>

theorem list_all_plan_gate:
  "(list_all_query (normalize q) \<longrightarrow>
      ai_process E q tasks p =
        (Inr (Text (if tasks = [] then ''Belum ada tugas.''
                    else ''Daftar tugas:'' @ [CHR 0x0A]
                         @ join [CHR 0x0A]
                             (map (if p ''plan'' = Some ''pro'' then line_pro E else line_basic E)
                                  tasks))),
         tasks))
   \<and> line_basic E t = ''- '' @ t_name t @ '' ('' @ format_date_iso E (t_deadline t) @ '')''
   \<and> line_pro E t =
       line_basic E t @ '' '' @ bullet @ '' '' @ upper (t_priority t)
       @ '' '' @ bullet @ '' '' @ t_note t
   \<and> line_pro E t \<noteq> line_basic E t"
  by (simp add: ai_process_daftar daftar_def plan_is_pro line_basic_def line_pro_def)

theorem list_all_plan_gate_witness:
  "list_all_query (normalize ''  Tampilkan semua '')
   \<and> ai_process env0 ''  Tampilkan semua ''
        [(new_task ''t1'' ''Math HW'' ''2025-06-01T00:00:00'')\<lparr>t_note := ''bab 3''\<rparr>]
        [''plan'' \<mapsto> ''pro'']
      = (Inr (Text (''Daftar tugas:'' @ [CHR 0x0A] @ ''- Math HW (01 June 2025) '' @ bullet
                    @ '' MEDIUM '' @ bullet @ '' bab 3'')),
         [(new_task ''t1'' ''Math HW'' ''2025-06-01T00:00:00'')\<lparr>t_note := ''bab 3''\<rparr>])
   \<and> ai_process env0 ''  Tampilkan semua ''
        [(new_task ''t1'' ''Math HW'' ''2025-06-01T00:00:00'')\<lparr>t_note := ''bab 3''\<rparr>]
        [''plan'' \<mapsto> ''premium'']
      = (Inr (Text (''Daftar tugas:'' @ [CHR 0x0A] @ ''- Math HW (01 June 2025)'')),
         [(new_task ''t1'' ''Math HW'' ''2025-06-01T00:00:00'')\<lparr>t_note := ''bab 3''\<rparr>])"
proof -
  have h: "list_all_query (normalize ''  Tampilkan semua '')" by code_simp
  have a: "line_pro env0 ((new_task ''t1'' ''Math HW'' ''2025-06-01T00:00:00'')\<lparr>t_note := ''bab 3''\<rparr>)
           = ''- Math HW (01 June 2025) '' @ bullet @ '' MEDIUM '' @ bullet @ '' bab 3''"
    by code_simp
  have b: "line_basic env0 ((new_task ''t1'' ''Math HW'' ''2025-06-01T00:00:00'')\<lparr>t_note := ''bab 3''\<rparr>)
           = ''- Math HW (01 June 2025)''"
    by code_simp
  from h a b
    list_all_plan_gate[of "''  Tampilkan semua ''" env0
      "[(new_task ''t1'' ''Math HW'' ''2025-06-01T00:00:00'')\<lparr>t_note := ''bab 3''\<rparr>]"
      "[''plan'' \<mapsto> ''pro'']"]
    list_all_plan_gate[of "''  Tampilkan semua ''" env0
      "[(new_task ''t1'' ''Math HW'' ''2025-06-01T00:00:00'')\<lparr>t_note := ''bab 3''\<rparr>]"
      "[''plan'' \<mapsto> ''premium'']"]
  show ?thesis by simp
qed

subsection \<open>The delete command\<close>

lemma filter_single:
  assumes "filter P xs = [t]"
  shows "\<exists>us vs. xs = us @ t # vs \<and> (\<forall>u \<in> set (us @ vs). \<not> P u) \<and> P t
                 \<and> remove1 t xs = us @ vs"
proof -
  from assms obtain us vs where
    x: "xs = us @ t # vs" and u: "\<forall>u \<in> set us. \<not> P u" and t: "P t" and v: "[] = filter P vs"
    unfolding filter_eq_Cons_iff by blast
  from v[symmetric] have "\<forall>u \<in> set vs. \<not> P u" by (simp add: filter_empty_conv)
  moreover from u t have "t \<notin> set us" by blast
  then have "remove1 t xs = us @ vs" by (simp add: x remove1_append)
  ultimately show ?thesis using x u t by auto
qed

lemma hapus_one:
  "filter (name_match (strip (replace text ''hapus'' []))) tasks = [t] \<Longrightarrow>
     hapus text tasks = (Save (''Tugas '' @ quoted (t_name t) @ '' dihapus.''), remove1 t tasks)"
  by (simp add: hapus_def)

lemma hapus_many:
  "length (filter (name_match (strip (replace text ''hapus'' []))) tasks) > 1 \<Longrightarrow>
     hapus text tasks =
       (Text (''Ditemukan ''
              @ str_nat (length (filter (name_match (strip (replace text ''hapus'' []))) tasks))
              @ '' tugas. Sebutkan nama lebih spesifik.''), tasks)"
  by (auto simp: hapus_def Let_def split: list.split)

lemma hapus_none:
  "filter (name_match (strip (replace text ''hapus'' []))) tasks = [] \<Longrightarrow>
     hapus text tasks =
       (Text (''Tugas '' @ quoted (strip (replace text ''hapus'' [])) @ '' tidak ditemukan.''),
        tasks)"
  by (simp add: hapus_def)

text \<open>
  Claim C2, amended. Take a text that, lower-cased and trimmed, starts with \<^verbatim>\<open>hapus\<close>,
  is not taken by a small-talk rule, and holds the word \<^verbatim>\<open>hapus\<close> nowhere but at its
  start. If the rest of the text, trimmed, occurs in the lower-cased name of exactly one
  task, the interpreter removes that task and nothing else, keeps the others in their
  order, and returns the confirmation with \<^verbatim>\<open>_save\<close>.

  As the claim is written it fails: a text that starts with \<^verbatim>\<open>hapus\<close> and holds a greeting
  word is answered by the greeting rule, and nothing is removed (the counterexample).
\<close>

theorem hapus_single_match:
  assumes "\<not> small_talk (normalize q)"
    and "startswith (normalize q) ''hapus''"
    and "\<not> str_in ''hapus'' (drop (length ''hapus'') (normalize q))"
    and "filter (name_match (remainder ''hapus'' (normalize q))) tasks = [t]"
  shows "ai_process E q tasks p
           = (Inr (Save (''Tugas '' @ quoted (t_name t) @ '' dihapus.'')), remove1 t tasks)
         \<and> (\<exists>us vs. tasks = us @ t # vs \<and> remove1 t tasks = us @ vs
               \<and> (\<forall>u \<in> set (us @ vs). \<not> name_match (remainder ''hapus'' (normalize q)) u))"
proof -
  have r: "strip (replace (normalize q) ''hapus'' []) = remainder ''hapus'' (normalize q)"
    using assms(2,3) by (intro replace_only_prefix) simp_all
  from filter_single[OF assms(4)] obtain us vs where
    x: "tasks = us @ t # vs"
    and n: "\<forall>u \<in> set (us @ vs). \<not> name_match (remainder ''hapus'' (normalize q)) u"
    and rm: "remove1 t tasks = us @ vs"
    by blast
  from assms(4) have "filter (name_match (strip (replace (normalize q) ''hapus'' []))) tasks = [t]"
    by (simp only: r)
  then have "hapus (normalize q) tasks
          = (Save (''Tugas '' @ quoted (t_name t) @ '' dihapus.''), remove1 t tasks)"
    by (rule hapus_one)
  then have "ai_process E q tasks p
          = (Inr (Save (''Tugas '' @ quoted (t_name t) @ '' dihapus.'')), remove1 t tasks)"
    by (simp only: ai_process_hapus[OF assms(1,2)] fst_conv snd_conv)
  with x n rm show ?thesis by blast
qed

theorem hapus_single_match_witness:
  "\<not> small_talk (normalize ''Hapus Math'')
   \<and> startswith (normalize ''Hapus Math'') ''hapus''
   \<and> \<not> str_in ''hapus'' (drop (length ''hapus'') (normalize ''Hapus Math''))
   \<and> filter (name_match (remainder ''hapus'' (normalize ''Hapus Math'')))
        [new_task ''t1'' ''Essay'' ''2025-06-02T00:00:00'',
         new_task ''t2'' ''Math HW'' ''2025-06-01T00:00:00'',
         new_task ''t3'' ''Lab report'' ''2025-06-03T00:00:00'']
      = [new_task ''t2'' ''Math HW'' ''2025-06-01T00:00:00'']
   \<and> ai_process env0 ''Hapus Math''
        [new_task ''t1'' ''Essay'' ''2025-06-02T00:00:00'',
         new_task ''t2'' ''Math HW'' ''2025-06-01T00:00:00'',
         new_task ''t3'' ''Lab report'' ''2025-06-03T00:00:00''] Map.empty
      = (Inr (Save (''Tugas '' @ quoted ''Math HW'' @ '' dihapus.'')),
         [new_task ''t1'' ''Essay'' ''2025-06-02T00:00:00'',
          new_task ''t3'' ''Lab report'' ''2025-06-03T00:00:00''])"
proof -
  have h1: "\<not> small_talk (normalize ''Hapus Math'')" by code_simp
  have h2: "startswith (normalize ''Hapus Math'') ''hapus''" by code_simp
  have h3: "\<not> str_in ''hapus'' (drop (length ''hapus'') (normalize ''Hapus Math''))"
    by code_simp
  have h4: "filter (name_match (remainder ''hapus'' (normalize ''Hapus Math'')))
        [new_task ''t1'' ''Essay'' ''2025-06-02T00:00:00'',
         new_task ''t2'' ''Math HW'' ''2025-06-01T00:00:00'',
         new_task ''t3'' ''Lab report'' ''2025-06-03T00:00:00'']
      = [new_task ''t2'' ''Math HW'' ''2025-06-01T00:00:00'']"
    by code_simp
  from hapus_single_match[OF h1 h2 h3 h4, of env0 Map.empty] h1 h2 h3 h4
  show ?thesis by (simp add: new_task_def)
qed

theorem hapus_single_match_counterexample:
  "startswith (normalize ''hapus hiking'') ''hapus''
   \<and> filter (name_match (remainder ''hapus'' (normalize ''hapus hiking'')))
        [new_task ''t1'' ''Hiking trip'' ''2025-06-02T00:00:00'',
         new_task ''t2'' ''Essay'' ''2025-06-01T00:00:00'']
      = [new_task ''t1'' ''Hiking trip'' ''2025-06-02T00:00:00'']
   \<and> ai_process env0 ''hapus hiking''
        [new_task ''t1'' ''Hiking trip'' ''2025-06-02T00:00:00'',
         new_task ''t2'' ''Essay'' ''2025-06-01T00:00:00''] Map.empty
      = (Inr (Text ''Hai! Ada yang bisa saya bantu?''),
         [new_task ''t1'' ''Hiking trip'' ''2025-06-02T00:00:00'',
          new_task ''t2'' ''Essay'' ''2025-06-01T00:00:00''])"
  by code_simp

text \<open>
  Claim C3, amended. For a text as in C2: if the rest of the text occurs in the names of
  \<open>n > 1\<close> tasks, the task list is left as it was, no \<^verbatim>\<open>_save\<close> is returned and the reply
  reports \<open>n\<close> and asks for a more specific name; if it occurs in no name, the list is left
  as it was, no \<^verbatim>\<open>_save\<close> is returned and the reply is the not-found message, which
  differs from every ambiguity reply.

  As the claim is written it fails: with a greeting word in the text the reply is the
  greeting, not the count (the counterexample).
\<close>

theorem hapus_no_single_match:
  assumes "\<not> small_talk (normalize q)"
    and "startswith (normalize q) ''hapus''"
    and "\<not> str_in ''hapus'' (drop (length ''hapus'') (normalize q))"
    and "length (filter (name_match (remainder ''hapus'' (normalize q))) tasks) = n"
    and "n \<noteq> 1"
  shows "ai_process E q tasks p
         = (Inr (Text (if n > 1
                       then ''Ditemukan '' @ str_nat n @ '' tugas. Sebutkan nama lebih spesifik.''
                       else ''Tugas '' @ quoted (remainder ''hapus'' (normalize q))
                            @ '' tidak ditemukan.'')),
            tasks)
         \<and> ''Tugas '' @ quoted (remainder ''hapus'' (normalize q)) @ '' tidak ditemukan.''
             \<noteq> ''Ditemukan '' @ str_nat m @ '' tugas. Sebutkan nama lebih spesifik.''"
proof -
  have r: "strip (replace (normalize q) ''hapus'' []) = remainder ''hapus'' (normalize q)"
    using assms(2,3) by (intro replace_only_prefix) simp_all
  have "hapus (normalize q) tasks
        = (Text (if n > 1
                 then ''Ditemukan '' @ str_nat n @ '' tugas. Sebutkan nama lebih spesifik.''
                 else ''Tugas '' @ quoted (remainder ''hapus'' (normalize q))
                      @ '' tidak ditemukan.''), tasks)"
  proof (cases "n > 1")
    case True
    with assms(4) have "length (filter (name_match (strip (replace (normalize q) ''hapus'' []))) tasks) > 1"
      by (simp only: r)
    from hapus_many[OF this] True assms(4) show ?thesis by (simp only: r if_True)
  next
    case False
    with assms(5) have "n = 0" by simp
    with assms(4) have "filter (name_match (remainder ''hapus'' (normalize q))) tasks = []"
      by simp
    then have "filter (name_match (strip (replace (normalize q) ''hapus'' []))) tasks = []"
      by (simp only: r)
    from hapus_none[OF this] False show ?thesis by (simp only: r if_False)
  qed
  then have "ai_process E q tasks p
         = (Inr (Text (if n > 1
                       then ''Ditemukan '' @ str_nat n @ '' tugas. Sebutkan nama lebih spesifik.''
                       else ''Tugas '' @ quoted (remainder ''hapus'' (normalize q))
                            @ '' tidak ditemukan.'')),
            tasks)"
    by (simp only: ai_process_hapus[OF assms(1,2)] fst_conv snd_conv)
  moreover have "''Tugas '' @ quoted (remainder ''hapus'' (normalize q)) @ '' tidak ditemukan.''
             \<noteq> ''Ditemukan '' @ str_nat m @ '' tugas. Sebutkan nama lebih spesifik.''"
    by simp
  ultimately show ?thesis by (rule conjI)
qed


theorem hapus_no_single_match_witness:
  "\<not> small_talk (normalize ''hapus math'')
   \<and> startswith (normalize ''hapus math'') ''hapus''
   \<and> \<not> str_in ''hapus'' (drop (length ''hapus'') (normalize ''hapus math''))
   \<and> length (filter (name_match (remainder ''hapus'' (normalize ''hapus math'')))
        [new_task ''t1'' ''Math HW'' ''2025-06-02T00:00:00'',
         new_task ''t2'' ''Essay'' ''2025-06-01T00:00:00'',
         new_task ''t3'' ''Math quiz'' ''2025-06-03T00:00:00'']) = 2
   \<and> ai_process env0 ''hapus math''
        [new_task ''t1'' ''Math HW'' ''2025-06-02T00:00:00'',
         new_task ''t2'' ''Essay'' ''2025-06-01T00:00:00'',
         new_task ''t3'' ''Math quiz'' ''2025-06-03T00:00:00''] Map.empty
      = (Inr (Text ''Ditemukan 2 tugas. Sebutkan nama lebih spesifik.''),
         [new_task ''t1'' ''Math HW'' ''2025-06-02T00:00:00'',
          new_task ''t2'' ''Essay'' ''2025-06-01T00:00:00'',
          new_task ''t3'' ''Math quiz'' ''2025-06-03T00:00:00''])
   \<and> length (filter (name_match (remainder ''hapus'' (normalize ''hapus math'')))
        [new_task ''t2'' ''Essay'' ''2025-06-01T00:00:00'']) = 0
   \<and> ai_process env0 ''hapus math''
        [new_task ''t2'' ''Essay'' ''2025-06-01T00:00:00''] Map.empty
      = (Inr (Text (''Tugas '' @ quoted ''math'' @ '' tidak ditemukan.'')),
         [new_task ''t2'' ''Essay'' ''2025-06-01T00:00:00''])"
proof -
  have h1: "\<not> small_talk (normalize ''hapus math'')" by code_simp
  have h2: "startswith (normalize ''hapus math'') ''hapus''" by code_simp
  have h3: "\<not> str_in ''hapus'' (drop (length ''hapus'') (normalize ''hapus math''))"
    by code_simp
  have h4: "length (filter (name_match (remainder ''hapus'' (normalize ''hapus math'')))
        [new_task ''t1'' ''Math HW'' ''2025-06-02T00:00:00'',
         new_task ''t2'' ''Essay'' ''2025-06-01T00:00:00'',
         new_task ''t3'' ''Math quiz'' ''2025-06-03T00:00:00'']) = 2"
    by code_simp
  have h5: "length (filter (name_match (remainder ''hapus'' (normalize ''hapus math'')))
        [new_task ''t2'' ''Essay'' ''2025-06-01T00:00:00'']) = 0"
    by code_simp
  have r: "remainder ''hapus'' (normalize ''hapus math'') = ''math''" by code_simp
  have n: "str_nat 2 = ''2''" by code_simp
  from hapus_no_single_match[OF h1 h2 h3 h4, of env0 Map.empty]
       hapus_no_single_match[OF h1 h2 h3 h5, of env0 Map.empty]
       h1 h2 h3 h4 h5
  show ?thesis by (simp add: r n)
qed

theorem hapus_no_single_match_counterexample:
  "startswith (normalize ''hapus hi'') ''hapus''
   \<and> length (filter (name_match (remainder ''hapus'' (normalize ''hapus hi'')))
        [new_task ''t1'' ''Hiking trip'' ''2025-06-02T00:00:00'',
         new_task ''t2'' ''History essay'' ''2025-06-01T00:00:00'']) = 2
   \<and> fst (ai_process env0 ''hapus hi''
        [new_task ''t1'' ''Hiking trip'' ''2025-06-02T00:00:00'',
         new_task ''t2'' ''History essay'' ''2025-06-01T00:00:00''] Map.empty)
      = Inr (Text ''Hai! Ada yang bisa saya bantu?'')
   \<and> fst (ai_process env0 ''hapus hi''
        [new_task ''t1'' ''Hiking trip'' ''2025-06-02T00:00:00'',
         new_task ''t2'' ''History essay'' ''2025-06-01T00:00:00''] Map.empty)
      \<noteq> Inr (Text ''Ditemukan 2 tugas. Sebutkan nama lebih spesifik.'')"
  by code_simp

subsection \<open>The nearest deadline\<close>

lemma list_sort_comparable:
  assumes "length xs \<le> 1 \<or> comparable_keys (map key xs)"
  shows "list_sort key xs = Inr (sort_key (\<lambda>x. rank (key x)) xs)"
proof (cases "length xs \<le> 1")
  case True
  then have "xs = [] \<or> (\<exists>x. xs = [x])" by (cases xs) auto
  then show ?thesis by (auto simp: list_sort_def)
next
  case False
  with assms show ?thesis by (simp add: list_sort_def)
qed

lemma list_sort_raises:
  "list_sort key xs = Inl e \<longleftrightarrow>
     e = TypeError \<and> 1 < length xs \<and> \<not> comparable_keys (map key xs)"
  by (auto simp: list_sort_def)

lemma filter_Cons_find: "filter P xs = t # r \<Longrightarrow> find P xs = Some t"
  by (induction xs) (auto split: if_splits)

lemma sort_key_first:
  assumes "xs \<noteq> []"
  shows "\<exists>t ts. sort_key f xs = t # ts \<and> t \<in> set xs \<and> (\<forall>u \<in> set xs. f t \<le> f u)
                 \<and> find (\<lambda>u. f u = f t) xs = Some t"
proof -
  from assms have "sort_key f xs \<noteq> []"
    by (metis length_0_conv length_sort)
  then obtain t ts where ys: "sort_key f xs = t # ts" by (cases "sort_key f xs") auto
  have "sorted (map f (sort_key f xs))" by (rule sorted_sort_key)
  with ys have "\<forall>u \<in> set ts. f t \<le> f u" by simp
  moreover have s: "set (t # ts) = set xs" using ys set_sort[of f xs] by simp
  ultimately have m: "\<forall>u \<in> set xs. f t \<le> f u" by auto
  have "filter (\<lambda>u. f u = f t) (sort_key f xs) = filter (\<lambda>u. f u = f t) xs"
    using sort_key_stable[of f "f t" xs] by (simp add: eq_commute)
  then have "filter (\<lambda>u. f u = f t) xs = t # filter (\<lambda>u. f u = f t) ts"
    by (simp add: ys)
  then have "find (\<lambda>u. f u = f t) xs = Some t" by (rule filter_Cons_find)
  with ys s m show ?thesis by auto
qed

lemma terdekat_eligible:
  "terdekat E tasks =
     (if eligible E tasks = []
      then Inr ''Tidak ada tugas mendatang atau semua deadline tidak valid.''
      else case list_sort (parse_dt E) (eligible E tasks) of
             Inl e \<Rightarrow> Inl e
           | Inr [] \<Rightarrow> Inl IndexError
           | Inr (t # _) \<Rightarrow>
               Inr (''Deadline terdekat adalah '' @ quoted (t_name t) @ '' pada ''
                    @ format_date_iso E (t_deadline t) @ ''.''))"
  by (simp add: terdekat_def eligible_def Let_def)

lemma terdekat_reports_earliest:
  assumes "length (eligible E tasks) \<le> 1 \<or> comparable_keys (map (parse_dt E) (eligible E tasks))"
    and "eligible E tasks \<noteq> []"
  shows "\<exists>t. t \<in> set (eligible E tasks)
           \<and> (\<forall>u \<in> set (eligible E tasks). rank (parse_dt E t) \<le> rank (parse_dt E u))
           \<and> find (\<lambda>u. rank (parse_dt E u) = rank (parse_dt E t)) (eligible E tasks) = Some t
           \<and> terdekat E tasks =
               Inr (''Deadline terdekat adalah '' @ quoted (t_name t) @ '' pada ''
                    @ format_date_iso E (t_deadline t) @ ''.'')"
proof -
  from sort_key_first[OF assms(2), of "\<lambda>x. rank (parse_dt E x)"] obtain t ts where
    s: "sort_key (\<lambda>x. rank (parse_dt E x)) (eligible E tasks) = t # ts"
    and t: "t \<in> set (eligible E tasks)"
    and m: "\<forall>u \<in> set (eligible E tasks). rank (parse_dt E t) \<le> rank (parse_dt E u)"
    and f: "find (\<lambda>u. rank (parse_dt E u) = rank (parse_dt E t)) (eligible E tasks) = Some t"
    by blast
  from assms(1) s have "list_sort (parse_dt E) (eligible E tasks) = Inr (t # ts)"
    by (simp add: list_sort_comparable)
  with assms(2) have "terdekat E tasks =
               Inr (''Deadline terdekat adalah '' @ quoted (t_name t) @ '' pada ''
                    @ format_date_iso E (t_deadline t) @ ''.'')"
    by (simp add: terdekat_eligible)
  with t m f show ?thesis by blast
qed

lemma terdekat_raises:
  "terdekat E tasks = Inl e \<longleftrightarrow>
     e = TypeError \<and> 1 < length (eligible E tasks)
     \<and> \<not> comparable_keys (map (parse_dt E) (eligible E tasks))"
proof (cases "length (eligible E tasks) \<le> 1 \<or> comparable_keys (map (parse_dt E) (eligible E tasks))")
  case True
  show ?thesis
  proof (cases "eligible E tasks = []")
    case e: True
    then show ?thesis by (simp add: terdekat_eligible)
  next
    case False
    from terdekat_reports_earliest[OF True False] True show ?thesis by auto
  qed
next
  case False
  then have "list_sort (parse_dt E) (eligible E tasks) = Inl TypeError"
    by (simp add: list_sort_def)
  moreover from False have "eligible E tasks \<noteq> []" by auto
  ultimately have "terdekat E tasks = Inl TypeError" by (simp add: terdekat_eligible)
  with False show ?thesis by auto
qed

lemma ai_process_terdekat:
  "nearest_query (normalize q) \<Longrightarrow>
     ai_process E q tasks p = (map_sum id Text (terdekat E tasks), tasks)"
  by (simp add: ai_process_def nearest_query_def small_talk_def Let_def)

subsection \<open>Replies and failures\<close>

lemma hapus_reply: "reply_of (fst (hapus text tasks)) \<noteq> []"
  by (simp add: hapus_def Let_def split: list.split)

lemma selesai_reply: "reply_of (fst (selesai text tasks)) \<noteq> []"
  by (simp add: selesai_def Let_def split: option.split)

lemma terdekat_reply: "terdekat E tasks = Inr r \<Longrightarrow> r \<noteq> []"
  by (auto simp: terdekat_eligible split: if_splits sum.splits list.splits)

lemma query_replies:
  "minggu E tasks \<noteq> []" "besok E tasks \<noteq> []" "berapa tasks \<noteq> []"
  "daftar E tasks p \<noteq> []" "direct E text tasks p \<noteq> []"
  by (simp_all add: minggu_def besok_def berapa_def daftar_def direct_def fallback_def Let_def
        split: option.split)

lemma ai_process_rest:
  assumes "\<not> small_talk (normalize q)" "\<not> startswith (normalize q) ''hapus''"
    "\<not> startswith (normalize q) ''selesai''" "\<not> str_in ''terdekat'' (normalize q)"
  shows "\<exists>r. fst (ai_process E q tasks p) = Inr (Text r) \<and> r \<noteq> []"
  using assms
  by (auto simp: ai_process_def small_talk_def Let_def query_replies dest: deadline_terdekat)

lemma ai_process_raises:
  "fst (ai_process E q tasks p) = Inl e \<longleftrightarrow>
     nearest_query (normalize q) \<and> e = TypeError \<and> 1 < length (eligible E tasks)
     \<and> \<not> comparable_keys (map (parse_dt E) (eligible E tasks))"
proof (cases "nearest_query (normalize q)")
  case True
  have "map_sum id Text (terdekat E tasks) = Inl e \<longleftrightarrow> terdekat E tasks = Inl e"
    by (cases "terdekat E tasks") simp_all
  with True show ?thesis
    by (simp add: ai_process_terdekat terdekat_raises)
next
  case False
  have "\<exists>a. fst (ai_process E q tasks p) = Inr a"
  proof (cases "small_talk (normalize q)")
    case True
    then show ?thesis using ai_process_small_talk[of q E tasks p] by auto
  next
    case st: False
    show ?thesis
    proof (cases "startswith (normalize q) ''hapus''")
      case True
      with st show ?thesis by (simp add: ai_process_hapus)
    next
      case h: False
      show ?thesis
      proof (cases "startswith (normalize q) ''selesai''")
        case True
        with st h show ?thesis by (simp add: ai_process_selesai)
      next
        case s: False
        with st h False have "\<not> str_in ''terdekat'' (normalize q)"
          by (simp add: nearest_query_def)
        from ai_process_rest[OF st h s this] show ?thesis by blast
      qed
    qed
  qed
  with False show ?thesis by auto
qed

lemma ai_process_reply_nonempty:
  assumes "fst (ai_process E q tasks p) = Inr a"
  shows "reply_of a \<noteq> []"
proof (cases "small_talk (normalize q)")
  case True
  with assms show ?thesis
    by (auto simp: ai_process_def small_talk_def Let_def greeting_def identity_def wellbeing_def
             split: if_splits)
next
  case st: False
  show ?thesis
  proof (cases "startswith (normalize q) ''hapus''")
    case True
    with st assms show ?thesis by (auto simp: ai_process_hapus hapus_reply)
  next
    case h: False
    show ?thesis
    proof (cases "startswith (normalize q) ''selesai''")
      case True
      with st h assms show ?thesis by (auto simp: ai_process_selesai selesai_reply)
    next
      case s: False
      show ?thesis
      proof (cases "str_in ''terdekat'' (normalize q)")
        case True
        with st h s have "nearest_query (normalize q)" by (simp add: nearest_query_def)
        with assms show ?thesis
          by (cases "terdekat E tasks") (auto simp: ai_process_terdekat terdekat_reply)
      next
        case False
        from ai_process_rest[OF st h s False, of E tasks p] assms show ?thesis by auto
      qed
    qed
  qed
qed

lemma fallback_when_unmatched:
  assumes "\<not> small_talk (normalize q)" "\<not> startswith (normalize q) ''hapus''"
    "\<not> startswith (normalize q) ''selesai''" "\<not> str_in ''terdekat'' (normalize q)"
    "\<not> str_in ''minggu'' (normalize q)" "\<not> str_in ''besok'' (normalize q)"
    "\<not> str_in ''berapa'' (normalize q)" "\<not> str_in ''jumlah'' (normalize q)"
    "\<not> list_ex (\<lambda>k. str_in k (normalize q)) [''tampilkan'', ''semua'', ''daftar'']"
    "\<forall>t \<in> set tasks. \<not> str_in (lower (t_name t)) (normalize q)"
  shows "ai_process E q tasks p = (Inr (Text fallback), tasks)"
proof -
  from assms(10) have "find (\<lambda>t. str_in (lower (t_name t)) (normalize q)) tasks = None"
    by (simp add: find_None_iff)
  with assms(1-9) show ?thesis
    by (auto simp: ai_process_def small_talk_def Let_def direct_def dest: deadline_terdekat)
qed

lemma terdekat_example:
  "ai_process env0 ''deadline terdekat''
     [new_task ''t1'' ''Math HW'' ''2025-01-10T00:00:00'',
      new_task ''t2'' ''Essay'' ''2025-01-05T00:00:00''] Map.empty
   = (Inr (Text (''Deadline terdekat adalah '' @ quoted ''Essay'' @ '' pada 05 January 2025.'')),
      [new_task ''t1'' ''Math HW'' ''2025-01-10T00:00:00'',
       new_task ''t2'' ''Essay'' ''2025-01-05T00:00:00''])"
  by code_simp

text \<open>
  Claim C1. The claim is that \<^verbatim>\<open>ai_process\<close> returns a non-empty reply for every text,
  task list and profile, and never raises. By \<open>ai_process_raises\<close> and
  \<open>ai_process_reply_nonempty\<close> this holds everywhere except on the nearest-deadline rule,
  whose sort compares the parsed deadlines outside any \<^verbatim>\<open>try\<close>: with a naive and an aware
  deadline among the tasks that are not done, the call raises \<^verbatim>\<open>TypeError\<close>, and \<^verbatim>\<open>api_query\<close>
  answers with status 500. Both deadlines below are accepted and stored by \<^verbatim>\<open>api_tasks\<close>.
\<close>

theorem terdekat_raises_on_mixed_deadlines:
  "fromisoformat env0 ''2025-01-05T00:00:00''
     = Some \<lparr>year = 2025, month = 1, day = 5, hour = 0, minute = 0, second = 0,
             microsecond = 0, utcoffset = None\<rparr>
   \<and> fromisoformat env0 ''2025-01-10T00:00:00+07:00''
     = Some \<lparr>year = 2025, month = 1, day = 10, hour = 0, minute = 0, second = 0,
             microsecond = 0, utcoffset = Some 25200000000\<rparr>
   \<and> ai_process env0 ''deadline terdekat''
        [new_task ''t1'' ''Math HW'' ''2025-01-05T00:00:00'',
         new_task ''t2'' ''Essay'' ''2025-01-10T00:00:00+07:00''] Map.empty
      = (Inl TypeError,
         [new_task ''t1'' ''Math HW'' ''2025-01-05T00:00:00'',
          new_task ''t2'' ''Essay'' ''2025-01-10T00:00:00+07:00''])
   \<and> fst (api_query env0 ''deadline terdekat''
        [new_task ''t1'' ''Math HW'' ''2025-01-05T00:00:00'',
         new_task ''t2'' ''Essay'' ''2025-01-10T00:00:00+07:00''] Map.empty)
      = \<lparr>status = 500, ok = False, reply = ''Terjadi kesalahan server''\<rparr>"
  by code_simp

text \<open>
  Claim C7. The claim is that the nearest-deadline rule reports the earliest task among
  those not done whose deadline parses. By \<open>terdekat_reports_earliest\<close> it does so
  whenever the parsed deadlines can be compared with each other, and unparseable
  deadlines are left out before the sort. With a naive and an aware deadline among them
  the sort raises \<^verbatim>\<open>TypeError\<close> and no task is reported.
\<close>

theorem terdekat_reports_nothing_on_mixed_deadlines:
  "\<not> small_talk (normalize ''Tugas terdekat?'')
   \<and> \<not> startswith (normalize ''Tugas terdekat?'') ''hapus''
   \<and> \<not> startswith (normalize ''Tugas terdekat?'') ''selesai''
   \<and> str_in ''terdekat'' (normalize ''Tugas terdekat?'')
   \<and> filter (\<lambda>t. \<not> t_done t \<and> parse_dt env0 t \<noteq> None)
        [new_task ''t1'' ''Lab report'' ''2025-03-01T08:00:00+00:00'',
         new_task ''t2'' ''bukan tanggal'' ''besok pagi'',
         new_task ''t3'' ''Essay'' ''2025-02-01T00:00:00'']
      = [new_task ''t1'' ''Lab report'' ''2025-03-01T08:00:00+00:00'',
         new_task ''t3'' ''Essay'' ''2025-02-01T00:00:00'']
   \<and> fst (ai_process env0 ''Tugas terdekat?''
        [new_task ''t1'' ''Lab report'' ''2025-03-01T08:00:00+00:00'',
         new_task ''t2'' ''bukan tanggal'' ''besok pagi'',
         new_task ''t3'' ''Essay'' ''2025-02-01T00:00:00''] Map.empty)
      = Inl TypeError"
  by code_simp

subsection \<open>The command word inside the text\<close>

lemma selesai_not_hapus: "startswith s ''selesai'' \<Longrightarrow> \<not> startswith s ''hapus''"
  by (cases s) auto

lemma set_done_first_split:
  "find P xs = Some f \<Longrightarrow>
     \<exists>us vs. xs = us @ f # vs \<and> (\<forall>u \<in> set us. \<not> P u) \<and> P f
             \<and> set_done_first P xs = us @ f\<lparr>t_done := True\<rparr> # vs"
proof (induction xs)
  case Nil
  then show ?case by simp
next
  case (Cons x xs)
  show ?case
  proof (cases "P x")
    case True
    with Cons.prems have "x = f" by simp
    with True have "x # xs = [] @ f # xs \<and> (\<forall>u \<in> set []. \<not> P u) \<and> P f
             \<and> set_done_first P (x # xs) = [] @ f\<lparr>t_done := True\<rparr> # xs"
      by simp
    then show ?thesis by blast
  next
    case False
    with Cons.prems have "find P xs = Some f" by simp
    from Cons.IH[OF this] obtain us vs where
      "xs = us @ f # vs" "\<forall>u \<in> set us. \<not> P u" "P f"
      "set_done_first P xs = us @ f\<lparr>t_done := True\<rparr> # vs"
      by blast
    with False have "x # xs = (x # us) @ f # vs \<and> (\<forall>u \<in> set (x # us). \<not> P u) \<and> P f
             \<and> set_done_first P (x # xs) = (x # us) @ f\<lparr>t_done := True\<rparr> # vs"
      by simp
    then show ?thesis by blast
  qed
qed

lemma selesai_first_match:
  assumes "\<not> small_talk (normalize q)"
    and "startswith (normalize q) ''selesai''"
    and "\<not> str_in ''selesai'' (drop (length ''selesai'') (normalize q))"
  shows "ai_process E q tasks p =
           (case find (name_match (remainder ''selesai'' (normalize q))) tasks of
              Some f \<Rightarrow>
                (Inr (Save (''Tugas '' @ quoted (t_name f) @ '' ditandai selesai.'')),
                 set_done_first (name_match (remainder ''selesai'' (normalize q))) tasks)
            | None \<Rightarrow>
                (Inr (Text (''Tugas '' @ quoted (remainder ''selesai'' (normalize q))
                            @ '' tidak ditemukan.'')), tasks))"
proof -
  have r: "strip (replace (normalize q) ''selesai'' []) = remainder ''selesai'' (normalize q)"
    using assms(2,3) by (intro replace_only_prefix) simp_all
  from assms(2) have h: "\<not> startswith (normalize q) ''hapus''" by (rule selesai_not_hapus)
  have "selesai (normalize q) tasks =
           (case find (name_match (remainder ''selesai'' (normalize q))) tasks of
              Some f \<Rightarrow>
                (Save (''Tugas '' @ quoted (t_name f) @ '' ditandai selesai.''),
                 set_done_first (name_match (remainder ''selesai'' (normalize q))) tasks)
            | None \<Rightarrow>
                (Text (''Tugas '' @ quoted (remainder ''selesai'' (normalize q))
                            @ '' tidak ditemukan.''), tasks))"
    unfolding selesai_def Let_def r ..
  then show ?thesis
    by (simp add: ai_process_selesai[OF assms(1) h assms(2)] split: option.split)
qed

text \<open>
  Claim C4. The claim is that the filter of the delete command is the text with the
  leading \<^verbatim>\<open>hapus\<close> stripped, trimmed, a later \<^verbatim>\<open>hapus\<close> being kept. The code calls
  \<^verbatim>\<open>text.replace("hapus", "")\<close>, which removes every occurrence: for the text below the
  filter is \<^verbatim>\<open>tugas\<close>, not \<^verbatim>\<open>tugas hapus\<close>, so that the one task the user names is not
  deleted and the reply counts two matches. Where \<^verbatim>\<open>hapus\<close> occurs at the start only, the
  two filters agree (\<open>replace_only_prefix\<close>).
\<close>

theorem hapus_filter_drops_inner_word:
  "\<not> small_talk (normalize ''hapus tugas hapus'')
   \<and> startswith (normalize ''hapus tugas hapus'') ''hapus''
   \<and> remainder ''hapus'' (normalize ''hapus tugas hapus'') = ''tugas hapus''
   \<and> strip (replace (normalize ''hapus tugas hapus'') ''hapus'' []) = ''tugas''
   \<and> filter (name_match (remainder ''hapus'' (normalize ''hapus tugas hapus'')))
        [new_task ''t1'' ''Tugas hapus'' ''2025-06-02T00:00:00'',
         new_task ''t2'' ''Tugas lain'' ''2025-06-01T00:00:00'']
      = [new_task ''t1'' ''Tugas hapus'' ''2025-06-02T00:00:00'']
   \<and> ai_process env0 ''hapus tugas hapus''
        [new_task ''t1'' ''Tugas hapus'' ''2025-06-02T00:00:00'',
         new_task ''t2'' ''Tugas lain'' ''2025-06-01T00:00:00''] Map.empty
      = (Inr (Text ''Ditemukan 2 tugas. Sebutkan nama lebih spesifik.''),
         [new_task ''t1'' ''Tugas hapus'' ''2025-06-02T00:00:00'',
          new_task ''t2'' ''Tugas lain'' ''2025-06-01T00:00:00''])"
  by code_simp

text \<open>
  Claim C6. The claim is that the mark-done command sets \<^verbatim>\<open>done\<close> on the first task whose
  lower-cased name contains the rest of the text. The code takes the text with every
  \<^verbatim>\<open>selesai\<close> removed: for the text below the first task that contains the rest of the
  text is the second one, and the code marks the first. Where \<^verbatim>\<open>selesai\<close> occurs at the
  start only, the code does what the claim says (\<open>selesai_first_match\<close>,
  \<open>set_done_first_split\<close>).
\<close>

theorem selesai_marks_other_task:
  "\<not> small_talk (normalize ''selesai tugas selesai'')
   \<and> \<not> startswith (normalize ''selesai tugas selesai'') ''hapus''
   \<and> startswith (normalize ''selesai tugas selesai'') ''selesai''
   \<and> remainder ''selesai'' (normalize ''selesai tugas selesai'') = ''tugas selesai''
   \<and> find (name_match (remainder ''selesai'' (normalize ''selesai tugas selesai'')))
        [new_task ''t1'' ''Tugas lain'' ''2025-06-02T00:00:00'',
         new_task ''t2'' ''Tugas selesai'' ''2025-06-01T00:00:00'']
      = Some (new_task ''t2'' ''Tugas selesai'' ''2025-06-01T00:00:00'')
   \<and> ai_process env0 ''selesai tugas selesai''
        [new_task ''t1'' ''Tugas lain'' ''2025-06-02T00:00:00'',
         new_task ''t2'' ''Tugas selesai'' ''2025-06-01T00:00:00''] Map.empty
      = (Inr (Save (''Tugas '' @ quoted ''Tugas lain'' @ '' ditandai selesai.'')),
         [(new_task ''t1'' ''Tugas lain'' ''2025-06-02T00:00:00'')\<lparr>t_done := True\<rparr>,
          new_task ''t2'' ''Tugas selesai'' ''2025-06-01T00:00:00''])"
  by code_simp

end
